theory Spec2Isabelle
  imports Main "HOL-Library.AList" "HOL-Library.Word"
begin

section \<open>Values shared by both modules\<close>

text \<open>
  Payloads, thinking records and result bundles are Python dictionaries and lists of
  strings, numbers and further dictionaries. They are modelled as a tree of JSON values;
  a dictionary is an association list, in insertion order. A float is a decimal
  \<open>JDec m k\<close>, the number \<open>m / 10 ^ k\<close>: the literal \<^verbatim>\<open>0.85\<close> is \<open>JDec 85 2\<close>.
\<close>

datatype json =
    JNull
  | JBool bool
  | JInt int
  | JDec int nat
  | JStr string
  | JList "json list"
  | JDict "(string \<times> json) list"

text \<open>
  Exceptions that the modelled functions raise. \<open>OutsideWorkspace\<close> is not an
  exception of Python: it marks a write whose path leaves the directory it was meant for
  (an absolute name, a leading \<^verbatim>\<open>..\<close>), which the model does not follow.
\<close>

datatype error =
    ValueError string
  | KeyError string
  | RuntimeError string
  | FileNotFoundError string
  | NotADirectoryError string
  | IsADirectoryError string
  | OSError string
  | NotImplementedError string
  | OutsideWorkspace string

text \<open>
  Python's \<^verbatim>\<open>str(n)\<close> for an integer, used by the f-strings that build file names
  and agent identifiers.
\<close>

fun str_nat :: "nat \<Rightarrow> string" where
  "str_nat n =
     (if n < 10 then [''0123456789'' ! n]
      else str_nat (n div 10) @ [''0123456789'' ! (n mod 10)])"

declare str_nat.simps [simp del]

definition str_int :: "int \<Rightarrow> string" where
  "str_int i = (if i < 0 then ''-'' @ str_nat (nat (- i)) else str_nat (nat i))"

text \<open>
  \<^verbatim>\<open>uuid.uuid4().hex[:8]\<close>: the first 32 bits of the random identifier as eight
  hexadecimal digits.
\<close>

definition hex_digit :: "nat \<Rightarrow> char" where
  "hex_digit d = ''0123456789abcdef'' ! (d mod 16)"

definition hex8 :: "nat \<Rightarrow> string" where
  "hex8 n = map (\<lambda>i. hex_digit (n div 16 ^ i)) [7, 6, 5, 4, 3, 2, 1, 0]"

section \<open>Opening a file for writing\<close>

text \<open>
  Every writer of the source builds \<^verbatim>\<open>directory / name\<close> with \<^verbatim>\<open>pathlib\<close> and calls
  \<^verbatim>\<open>open(path, 'w')\<close>. The directories are those that \<^verbatim>\<open>setup_workspace\<close> creates;
  they exist and hold files only. \<open>open_write files name\<close> is what the call does in such
  a directory with the files \<open>files\<close>: the name of the file that is created or replaced,
  or the exception. A NUL byte is refused by \<^verbatim>\<open>open\<close>; \<^verbatim>\<open>pathlib\<close> drops empty and
  \<^verbatim>\<open>.\<close> components; a name of more than 255 bytes is refused by the file system; a
  further component would have to be a directory inside the directory, and there is
  none.
\<close>

fun split_slash :: "string \<Rightarrow> string list" where
  "split_slash [] = [[]]"
| "split_slash (c # cs) =
     (if c = CHR ''/'' then [] # split_slash cs
      else (case split_slash cs of [] \<Rightarrow> [[c]] | x # xs \<Rightarrow> (c # x) # xs))"

definition open_write :: "string list \<Rightarrow> string \<Rightarrow> error + string" where
  "open_write files name =
     (if CHR 0x00 \<in> set name then Inl (ValueError ''embedded null byte'')
      else if take 1 name = ''/'' then Inl (OutsideWorkspace name)
      else (case filter (\<lambda>c. c \<noteq> [] \<and> c \<noteq> ''.'') (split_slash name) of
              [] \<Rightarrow> Inl (IsADirectoryError name)
            | [c] \<Rightarrow>
                (if c = ''..'' then Inl (IsADirectoryError name)
                 else if 255 < length c then Inl (OSError ''File name too long'')
                 else Inr c)
            | c # d # cs \<Rightarrow>
                (if c = ''..'' then Inl (OutsideWorkspace name)
                 else if 255 < length c then Inl (OSError ''File name too long'')
                 else if c \<in> set files then Inl (NotADirectoryError name)
                 else Inl (FileNotFoundError name))))"

section \<open>swarm\_orchestrator.py: data\<close>

text \<open>
  The dataclass \<^verbatim>\<open>AgentMessage\<close>. Its field \<^verbatim>\<open>agent_id\<close> is \<open>msg_agent_id\<close> here,
  because the agent class has a field of the same name.
\<close>

record AgentMessage =
  msg_agent_id :: string
  message_type :: string
  target :: string
  timestamp :: string
  payload :: json
  correlation_id :: "string option"
  requires_validation :: bool
  thinking_stage :: "string option"

text \<open>
  The dataclass \<^verbatim>\<open>Task\<close>. The status is a string, as in the source: nothing
  restricts it to the three names of the task queues.
\<close>

record Task =
  task_id :: string
  description :: string
  assigned_to :: "string option"
  status :: string
  created_at :: string
  completed_at :: "string option"
  result :: "json option"
  validation_required :: bool
  sequential_steps :: "string list"

text \<open>
  The files under the workspace's base directory. A directory is an association list
  from file name to content; the three task queues are one list keyed by the pair of
  queue directory and file name. A file holds the value that \<^verbatim>\<open>json.dump\<close> was given.
  \<^verbatim>\<open>setup_workspace\<close> only creates directories that are missing, so every directory
  exists in every state of the model.
\<close>

record SwarmWorkspace =
  base_dir :: string
  messages_dir :: "(string \<times> AgentMessage) list"
  tasks_dir :: "((string \<times> string) \<times> Task) list"
  thinking_sessions_dir :: "(string \<times> json) list"

text \<open>
  What the orchestrator module reads from outside: the disk, the random bits of
  \<^verbatim>\<open>uuid.uuid4()\<close>, the wall clock as \<^verbatim>\<open>datetime.utcnow().isoformat()\<close> and as
  \<^verbatim>\<open>int(time.time())\<close>, the whole seconds of the platform's signed 64-bit clock. Each
  source is the sequence of the values its successive calls return, with the number of
  calls made so far; no relation between the values is assumed.
\<close>

record world =
  workspace :: SwarmWorkspace
  uuid_bits :: "nat \<Rightarrow> nat"
  uuid_calls :: nat
  utcnow_iso :: "nat \<Rightarrow> string"
  utcnow_calls :: nat
  time_secs :: "nat \<Rightarrow> 64 word"
  time_calls :: nat

definition uuid4_hex8 :: "world \<Rightarrow> string \<times> world" where
  "uuid4_hex8 w = (hex8 (uuid_bits w (uuid_calls w)), w\<lparr>uuid_calls := Suc (uuid_calls w)\<rparr>)"

definition utcnow_isoformat :: "world \<Rightarrow> string \<times> world" where
  "utcnow_isoformat w = (utcnow_iso w (utcnow_calls w), w\<lparr>utcnow_calls := Suc (utcnow_calls w)\<rparr>)"

definition int_time :: "world \<Rightarrow> int \<times> world" where
  "int_time w = (sint (time_secs w (time_calls w)), w\<lparr>time_calls := Suc (time_calls w)\<rparr>)"

section \<open>SwarmWorkspace\<close>

text \<open>The file name \<^verbatim>\<open>f"{message.agent_id}_{int(time.time())}.json"\<close>.\<close>

definition message_file :: "string \<Rightarrow> int \<Rightarrow> string" where
  "message_file aid t = aid @ ''_'' @ str_int t @ ''.json''"

text \<open>
  \<^verbatim>\<open>write_message\<close> reads the clock, builds the name and opens the file with mode
  \<^verbatim>\<open>'w'\<close>: a file of that name is replaced, otherwise one is created. When the file
  cannot be opened the exception leaves the directory as it was.
\<close>

definition write_message :: "AgentMessage \<Rightarrow> world \<Rightarrow> (error + unit) \<times> world" where
  "write_message message w =
     (let (t, w1) = int_time w
      in case open_write (map fst (messages_dir (workspace w1)))
                (message_file (msg_agent_id message) t) of
           Inl e \<Rightarrow> (Inl e, w1)
         | Inr f \<Rightarrow> (Inr (), w1\<lparr>workspace := (workspace w1)\<lparr>messages_dir :=
               AList.update f message (messages_dir (workspace w1))\<rparr>\<rparr>))"

definition task_file :: "Task \<Rightarrow> (error + string \<times> string)" where
  "task_file task =
     (if status task = ''pending'' then Inr (''pending'', task_id task @ ''.json'')
      else if status task = ''active'' then Inr (''active'', task_id task @ ''.json'')
      else if status task = ''completed'' then Inr (''completed'', task_id task @ ''.json'')
      else Inl (ValueError (''Unknown task status: '' @ status task)))"

text \<open>The names of the files in one task queue.\<close>

definition queue_files :: "SwarmWorkspace \<Rightarrow> string \<Rightarrow> string list" where
  "queue_files ws q = map (snd \<circ> fst) (filter (\<lambda>((q', n), t). q' = q) (tasks_dir ws))"

text \<open>
  \<^verbatim>\<open>write_task\<close> raises before it touches the disk, for an unknown status and when
  the file cannot be opened, so an error leaves the world as it was.
\<close>

definition write_task :: "Task \<Rightarrow> world \<Rightarrow> (error + unit) \<times> world" where
  "write_task task w =
     (case task_file task of
        Inl e \<Rightarrow> (Inl e, w)
      | Inr (q, name) \<Rightarrow>
          (case open_write (queue_files (workspace w) q) name of
             Inl e \<Rightarrow> (Inl e, w)
           | Inr f \<Rightarrow> (Inr (), w\<lparr>workspace := (workspace w)\<lparr>tasks_dir :=
                 AList.update (q, f) task (tasks_dir (workspace w))\<rparr>\<rparr>)))"

text \<open>
  \<^verbatim>\<open>move_task\<close> mutates the task object it is given; the model returns the object
  as it is when the call returns or raises, next to the world. The record that is
  removed is the one under the task's old status and its identifier as they are written.
\<close>

definition move_task :: "Task \<Rightarrow> string \<Rightarrow> world \<Rightarrow> (error + unit) \<times> Task \<times> world" where
  "move_task task new_status w =
     (let current_file = (status task, task_id task @ ''.json'');
          w1 = w\<lparr>workspace := (workspace w)\<lparr>tasks_dir :=
                 AList.delete current_file (tasks_dir (workspace w))\<rparr>\<rparr>;
          task1 = task\<lparr>status := new_status\<rparr>;
          (task2, w2) =
            (if new_status = ''completed''
             then (let (now, w') = utcnow_isoformat w1 in (task1\<lparr>completed_at := Some now\<rparr>, w'))
             else (task1, w1));
          (r, w3) = write_task task2 w2
      in (r, task2, w3))"

section \<open>SequentialThinkAgent and SpecialistAgent\<close>

text \<open>
  An agent object. All agents of an orchestrator share its workspace, which lives in the
  world; the object keeps its identifier, its type, its specialty (the constructor of
  \<^verbatim>\<open>SpecialistAgent\<close> sets both to the same string) and its thinking log.
\<close>

record SpecialistAgent =
  agent_id :: string
  agent_type :: string
  specialty :: string
  thinking_log :: "json list"

definition SpecialistAgent_init :: "string \<Rightarrow> string \<Rightarrow> SpecialistAgent" where
  "SpecialistAgent_init aid spec =
     \<lparr>agent_id = aid, agent_type = spec, specialty = spec, thinking_log = []\<rparr>"

text \<open>
  \<^verbatim>\<open>log_thinking\<close> appends the entry to the agent's log and writes it to
  \<^verbatim>\<open>thinking_sessions/<agent_id>_<stage>.json\<close>, replacing a file of that name. The
  agents of an orchestrator get their identifiers from \<^verbatim>\<open>initialize_swarm\<close>, and
  the two stage names are fixed, so the name is a file name and the write is taken to
  succeed.
\<close>

definition log_thinking :: "string \<Rightarrow> json \<Rightarrow> SpecialistAgent \<times> world \<Rightarrow> SpecialistAgent \<times> world" where
  "log_thinking stage content aw =
     (let (a, w) = aw;
          (now, w1) = utcnow_isoformat w;
          log_entry = JDict [(''agent_id'', JStr (agent_id a)), (''timestamp'', JStr now),
                             (''stage'', JStr stage), (''content'', content)];
          log_file = agent_id a @ ''_'' @ stage @ ''.json''
      in (a\<lparr>thinking_log := thinking_log a @ [log_entry]\<rparr>,
          w1\<lparr>workspace := (workspace w1)\<lparr>thinking_sessions_dir :=
            AList.update log_file log_entry (thinking_sessions_dir (workspace w1))\<rparr>\<rparr>))"

definition thinking_process :: "string \<Rightarrow> json" where
  "thinking_process problem =
     JDict [
       (''phase_1_system_mapping'', JDict [
          (''question'', JStr (''What is the precise outcome needed for: '' @ problem @ ''?'')),
          (''evidence_gathering'', JList []),
          (''root_cause_analysis'', JList []),
          (''component_mapping'', JList [])]),
       (''phase_2_evidence_verification'', JDict [
          (''assumptions'', JList []),
          (''verification_steps'', JList []),
          (''facts_discovered'', JList []),
          (''mental_model'', JStr [])]),
       (''phase_3_minimal_intervention'', JDict [
          (''simplest_solution'', JStr []),
          (''intervention_plan'', JList []),
          (''verification_method'', JStr []),
          (''outcome_achievement'', JStr [])])]"

definition sequential_think :: "string \<Rightarrow> SpecialistAgent \<times> world \<Rightarrow> json \<times> SpecialistAgent \<times> world" where
  "sequential_think problem aw =
     (thinking_process problem, log_thinking ''sequential_analysis'' (thinking_process problem) aw)"

definition apply_first_principles :: "string \<Rightarrow> json" where
  "apply_first_principles problem =
     JDict [(''fundamental_truths'', JList []), (''undisputed_facts'', JList []),
            (''core_components'', JList []), (''causal_relationships'', JList [])]"

definition gather_perspectives :: "string \<Rightarrow> json" where
  "gather_perspectives problem =
     JList [JDict [(''viewpoint'', JStr ''systems''), (''analysis'', JStr [])],
            JDict [(''viewpoint'', JStr ''user''), (''analysis'', JStr [])],
            JDict [(''viewpoint'', JStr ''technical''), (''analysis'', JStr [])],
            JDict [(''viewpoint'', JStr ''business''), (''analysis'', JStr [])]]"

definition challenge_assumptions :: "string \<Rightarrow> json" where
  "challenge_assumptions problem =
     JList [JDict [(''assumption'', JStr []), (''challenge'', JStr []), (''impact'', JStr [])],
            JDict [(''assumption'', JStr []), (''challenge'', JStr []), (''impact'', JStr [])]]"

definition explore_solution_space :: "string \<Rightarrow> json" where
  "explore_solution_space problem =
     JDict [(''conventional_solutions'', JList []), (''unconventional_approaches'', JList []),
            (''hybrid_solutions'', JList []), (''risk_assessment'', JDict [])]"

definition integrate_other_insights :: "json list \<Rightarrow> json" where
  "integrate_other_insights insights =
     JDict [(''synthesized_insights'', JList []), (''conflicts_identified'', JList []),
            (''emergent_patterns'', JList []), (''collaborative_conclusions'', JList [])]"

text \<open>
  \<^verbatim>\<open>ultrathink_collaborative\<close>; the default \<^verbatim>\<open>None\<close> of the peer list is the
  empty list after \<^verbatim>\<open>other_agents_insights or []\<close>, so the model takes a list.
\<close>

definition collaborative_insights :: "string \<Rightarrow> json list \<Rightarrow> json" where
  "collaborative_insights problem other_agents_insights =
     JDict [(''first_principles_analysis'', apply_first_principles problem),
            (''multiple_perspectives'', gather_perspectives problem),
            (''assumption_challenging'', challenge_assumptions problem),
            (''solution_space_exploration'', explore_solution_space problem),
            (''integration_insights'', integrate_other_insights other_agents_insights)]"

definition ultrathink_collaborative ::
  "string \<Rightarrow> json list \<Rightarrow> SpecialistAgent \<times> world \<Rightarrow> json \<times> SpecialistAgent \<times> world" where
  "ultrathink_collaborative problem other_agents_insights aw =
     (collaborative_insights problem other_agents_insights,
      log_thinking ''ultrathink_collaborative''
        (collaborative_insights problem other_agents_insights) aw)"

text \<open>Reading a dictionary value: \<^verbatim>\<open>d.get(key)\<close> and \<^verbatim>\<open>list(d.keys())\<close>.\<close>

fun jget :: "json \<Rightarrow> string \<Rightarrow> json option" where
  "jget (JDict kvs) k = map_of kvs k"
| "jget _ k = None"

fun jkeys :: "json \<Rightarrow> string list" where
  "jkeys (JDict kvs) = map fst kvs"
| "jkeys _ = []"

section \<open>SwarmOrchestrator\<close>

text \<open>
  The orchestrator object. Its dictionaries keep insertion order, and assigning to a key
  that is present replaces the value in place, which is what \<open>AList.update\<close> does.
\<close>

record SwarmOrchestrator =
  agents :: "(string \<times> SpecialistAgent) list"
  max_agents :: int
  active_tasks :: "(string \<times> Task) list"
  thinking_sessions :: "(string \<times> json) list"

definition SwarmOrchestrator_init :: "int \<Rightarrow> SwarmOrchestrator" where
  "SwarmOrchestrator_init n = \<lparr>agents = [], max_agents = n, active_tasks = [], thinking_sessions = []\<rparr>"

definition agent_specialties :: "(string \<times> string) list" where
  "agent_specialties =
     [(''coordinator'', ''Orchestrates swarm activities and task distribution''),
      (''analyst'', ''Performs deep first-principles analysis''),
      (''validator'', ''Sequentially validates each thinking step''),
      (''explorer'', ''Explores alternative perspectives and solutions''),
      (''synthesizer'', ''Integrates multi-agent insights and results'')]"

text \<open>
  One round of the loop of \<^verbatim>\<open>initialize_swarm\<close>: a fresh identifier, a new agent
  stored under it in \<^verbatim>\<open>self.agents\<close>, its entry in the returned dictionary, and the
  \<^verbatim>\<open>agent_initialized\<close> message. The state is the orchestrator, the local dictionary
  \<^verbatim>\<open>initialized_agents\<close> and the world, as they are when the round ends or raises.
\<close>

definition initialize_agent ::
  "string \<times> string \<Rightarrow> SwarmOrchestrator \<times> (string \<times> json) list \<times> world
     \<Rightarrow> (error + unit) \<times> SwarmOrchestrator \<times> (string \<times> json) list \<times> world" where
  "initialize_agent sd st =
     (let (spec, descr) = sd;
          (self, initialized_agents, w) = st;
          (hex, w1) = uuid4_hex8 w;
          aid = spec @ ''_agent_'' @ hex;
          agent = SpecialistAgent_init aid spec;
          self1 = self\<lparr>agents := AList.update aid agent (agents self)\<rparr>;
          initialized1 = AList.update aid
            (JDict [(''specialty'', JStr spec), (''description'', JStr descr),
                    (''status'', JStr ''ready'')]) initialized_agents;
          (now, w2) = utcnow_isoformat w1;
          init_message = \<lparr>msg_agent_id = aid, message_type = ''agent_initialized'',
            target = ''swarm'', timestamp = now,
            payload = JDict [(''specialty'', JStr spec), (''capabilities'', JStr descr)],
            correlation_id = None, requires_validation = True, thinking_stage = None\<rparr>;
          (r, w3) = write_message init_message w2
      in (r, self1, initialized1, w3))"

fun initialize_agents ::
  "(string \<times> string) list \<Rightarrow> SwarmOrchestrator \<times> (string \<times> json) list \<times> world
     \<Rightarrow> (error + unit) \<times> SwarmOrchestrator \<times> (string \<times> json) list \<times> world" where
  "initialize_agents [] st = (Inr (), st)"
| "initialize_agents (sd # rest) st =
     (case initialize_agent sd st of
        (Inl e, st1) \<Rightarrow> (Inl e, st1)
      | (Inr u, st1) \<Rightarrow> initialize_agents rest st1)"

definition initialize_swarm ::
  "SwarmOrchestrator \<times> world \<Rightarrow> (error + json) \<times> SwarmOrchestrator \<times> world" where
  "initialize_swarm sw =
     (let (self, w) = sw
      in case initialize_agents agent_specialties (self, [], w) of
           (Inl e, self1, initialized_agents, w1) \<Rightarrow> (Inl e, self1, w1)
         | (Inr u, self1, initialized_agents, w1) \<Rightarrow>
             (Inr (JDict [(''status'', JStr ''swarm_initialized''),
                          (''agents'', JDict initialized_agents),
                          (''workspace'', JStr (base_dir (workspace w1))),
                          (''coordination_method'', JStr ''file_based_communication_hub'')]),
              self1, w1))"

text \<open>
  \<^verbatim>\<open>create_thinking_task\<close>. The task is built with an empty \<^verbatim>\<open>created_at\<close>, which
  \<^verbatim>\<open>__post_init__\<close> replaces by the current time when it is empty. The list of steps
  is always given here, so the other branch of \<^verbatim>\<open>__post_init__\<close>, which replaces a
  missing list by the empty one, has nothing to do.
\<close>

definition Task_post_init :: "Task \<Rightarrow> world \<Rightarrow> Task \<times> world" where
  "Task_post_init task w =
     (if created_at task = []
      then (let (now, w1) = utcnow_isoformat w in (task\<lparr>created_at := now\<rparr>, w1))
      else (task, w))"

definition create_thinking_task ::
  "string \<Rightarrow> bool \<Rightarrow> SwarmOrchestrator \<times> world \<Rightarrow> (error + string) \<times> SwarmOrchestrator \<times> world" where
  "create_thinking_task problem_description require_ultrathink sw =
     (let (self, w) = sw;
          (hex, w1) = uuid4_hex8 w;
          tid = ''thinking_task_'' @ hex;
          steps = [''phase_1_system_mapping'', ''phase_2_evidence_verification'',
                   ''phase_3_minimal_intervention'']
                  @ (if require_ultrathink
                     then [''collaborative_perspective_gathering'', ''assumption_challenging'',
                           ''solution_space_exploration'', ''insight_synthesis'']
                     else []);
          (task, w2) = Task_post_init
            \<lparr>task_id = tid, description = problem_description, assigned_to = None,
             status = ''pending'', created_at = [], completed_at = None, result = None,
             validation_required = True, sequential_steps = steps\<rparr> w1
      in case write_task task w2 of
           (Inl e, w3) \<Rightarrow> (Inl e, self, w3)
         | (Inr u, w3) \<Rightarrow>
             (let self1 = self\<lparr>active_tasks := AList.update tid task (active_tasks self)\<rparr>;
                  (now, w4) = utcnow_isoformat w3;
                  task_message = \<lparr>msg_agent_id = ''orchestrator'', message_type = ''task_created'',
                    target = ''all_agents'', timestamp = now,
                    payload = JDict [(''task_id'', JStr tid),
                                     (''description'', JStr problem_description),
                                     (''sequential_steps'', JList (map JStr steps)),
                                     (''require_ultrathink'', JBool require_ultrathink)],
                    correlation_id = Some tid, requires_validation = True,
                    thinking_stage = None\<rparr>
              in case write_message task_message w4 of
                   (Inl e, w5) \<Rightarrow> (Inl e, self1, w5)
                 | (Inr u, w5) \<Rightarrow> (Inr tid, self1, w5)))"

text \<open>
  Phase 1 of \<^verbatim>\<open>execute_sequential_swarm_thinking\<close>: the loop over
  \<^verbatim>\<open>self.agents.items()\<close>. Every agent that is not the coordinator thinks; its
  object (with the longer log) stays under its key, and its result is stored under its
  identifier in \<^verbatim>\<open>individual_results\<close>.
\<close>

fun phase1 ::
  "string \<Rightarrow> (string \<times> SpecialistAgent) list \<Rightarrow> (string \<times> json) list \<times> world
     \<Rightarrow> (string \<times> SpecialistAgent) list \<times> (string \<times> json) list \<times> world" where
  "phase1 problem [] (individual_results, w) = ([], individual_results, w)"
| "phase1 problem ((aid, agent) # rest) (individual_results, w) =
     (if specialty agent \<noteq> ''coordinator''
      then (let (r, agent1, w1) = sequential_think problem (agent, w);
                (rest1, res, w2) = phase1 problem rest (AList.update aid r individual_results, w1)
            in ((aid, agent1) # rest1, res, w2))
      else (let (rest1, res, w2) = phase1 problem rest (individual_results, w)
            in ((aid, agent) # rest1, res, w2)))"

text \<open>
  The peer input of Phase 2 for one agent: the list comprehension
  \<^verbatim>\<open>[result for aid, result in individual_results.items() if aid != agent_id]\<close>.
\<close>

definition other_insights :: "(string \<times> json) list \<Rightarrow> string \<Rightarrow> json list" where
  "other_insights individual_results aid =
     map snd (filter (\<lambda>(aid', r). aid' \<noteq> aid) individual_results)"

text \<open>
  Phase 2: the second loop over \<^verbatim>\<open>self.agents.items()\<close>. Its body calls the method
  \<^verbatim>\<open>ultrathink_collaborative\<close> of the agent object with the problem and the peer
  input. The loop is written for any such method, so that what it hands to the method
  can be told from what comes back; the orchestrator runs it with the method of
  \<^verbatim>\<open>SequentialThinkAgent\<close>, the only one in the source.
\<close>

fun phase2_with ::
  "(string \<Rightarrow> json list \<Rightarrow> SpecialistAgent \<times> world \<Rightarrow> json \<times> SpecialistAgent \<times> world)
     \<Rightarrow> string \<Rightarrow> (string \<times> json) list \<Rightarrow> (string \<times> SpecialistAgent) list
     \<Rightarrow> (string \<times> json) list \<times> world
     \<Rightarrow> (string \<times> SpecialistAgent) list \<times> (string \<times> json) list \<times> world" where
  "phase2_with method problem individual_results [] (ultrathink_results, w) =
     ([], ultrathink_results, w)"
| "phase2_with method problem individual_results ((aid, agent) # rest) (ultrathink_results, w) =
     (if specialty agent \<noteq> ''coordinator''
      then (let (r, agent1, w1) =
                  method problem (other_insights individual_results aid) (agent, w);
                (rest1, res, w2) =
                  phase2_with method problem individual_results rest
                    (AList.update aid r ultrathink_results, w1)
            in ((aid, agent1) # rest1, res, w2))
      else (let (rest1, res, w2) =
                  phase2_with method problem individual_results rest (ultrathink_results, w)
            in ((aid, agent) # rest1, res, w2)))"

definition phase2 ::
  "string \<Rightarrow> (string \<times> json) list \<Rightarrow> (string \<times> SpecialistAgent) list
     \<Rightarrow> (string \<times> json) list \<times> world
     \<Rightarrow> (string \<times> SpecialistAgent) list \<times> (string \<times> json) list \<times> world" where
  "phase2 = phase2_with ultrathink_collaborative"

definition achieve_consensus :: "(string \<times> json) list \<Rightarrow> (string \<times> json) list \<Rightarrow> json" where
  "achieve_consensus individual collaborative =
     JDict [(''consensus_level'', JStr ''high''), (''agreed_points'', JList []),
            (''disagreements'', JList []),
            (''resolution_method'', JStr ''collaborative_reasoning''),
            (''final_confidence'', JDec 85 2)]"

text \<open>
  Phase 3: \<^verbatim>\<open>self.agents.get("synthesizer_agent")\<close> looks the literal key up; an
  agent object is always true in the test that follows.
\<close>

definition final_synthesis :: "(string \<times> SpecialistAgent) list \<Rightarrow> (string \<times> json) list \<Rightarrow> json" where
  "final_synthesis ags ultrathink_results =
     (case map_of ags ''synthesizer_agent'' of
        Some synthesizer \<Rightarrow> integrate_other_insights (map snd ultrathink_results)
      | None \<Rightarrow> JDict [(''error'', JStr ''Synthesizer agent not available'')])"

text \<open>
  \<^verbatim>\<open>execute_sequential_swarm_thinking\<close>. The task taken from \<^verbatim>\<open>self.active_tasks\<close>
  is the object that \<^verbatim>\<open>move_task\<close> mutates, so the changed task is put back under
  its key. An exception leaves the orchestrator and the world as they are at the raise.
\<close>

definition execute_sequential_swarm_thinking ::
  "string \<Rightarrow> SwarmOrchestrator \<times> world \<Rightarrow> (error + json) \<times> SwarmOrchestrator \<times> world" where
  "execute_sequential_swarm_thinking problem sw =
     (case (if agents (fst sw) = []
            then (case initialize_swarm sw of
                    (Inl e, sw1) \<Rightarrow> Inl (e, sw1)
                  | (Inr r, sw1) \<Rightarrow> Inr sw1)
            else Inr sw) of
        Inl (e, self0, w0) \<Rightarrow> (Inl e, self0, w0)
      | Inr (self0, w0) \<Rightarrow>
     (case create_thinking_task problem True (self0, w0) of
           (Inl e, self1, w1) \<Rightarrow> (Inl e, self1, w1)
         | (Inr tid, self1, w1) \<Rightarrow>
             (let (ags1, individual_results, w2) = phase1 problem (agents self1) ([], w1);
                  (ags2, ultrathink_results, w3) =
                     phase2 problem individual_results ags1 ([], w2);
                  self2 = self1\<lparr>agents := ags2\<rparr>;
                  synthesis = final_synthesis ags2 ultrathink_results
              in case map_of (active_tasks self2) tid of
                   None \<Rightarrow> (Inl (KeyError tid), self2, w3)
                 | Some task \<Rightarrow>
                     (let task1 = task\<lparr>result := Some (JDict [
                              (''individual_sequential_thinking'', JDict individual_results),
                              (''collaborative_ultrathink'', JDict ultrathink_results),
                              (''final_synthesis'', synthesis),
                              (''swarm_consensus'',
                                 achieve_consensus individual_results ultrathink_results)])\<rparr>;
                          (r, task2, w4) = move_task task1 ''completed'' w3;
                          self3 = self2\<lparr>active_tasks := AList.update tid task2 (active_tasks self2)\<rparr>
                      in case r of
                           Inl e \<Rightarrow> (Inl e, self3, w4)
                         | Inr u \<Rightarrow> (case result task2 of
                                       Some res \<Rightarrow> (Inr res, self3, w4)
                                     | None \<Rightarrow> (Inr JNull, self3, w4))))))"

section \<open>agent\_launcher.py: processes and time\<close>

text \<open>
  The launcher starts operating-system processes and watches them over time. The model
  of what lies outside the launcher is a host with a clock in milliseconds and a table
  of processes. A process has the time at which it exits, if that is settled, the time
  it needs to exit once it is asked to terminate (\<open>None\<close>: it ignores the request), and
  the time the kill signal needs to take effect. The launcher's own statements are
  executed at the clock's current time; the clock moves in \<^verbatim>\<open>time.sleep\<close>, in
  \<^verbatim>\<open>process.wait\<close> and where the host lets extra time pass (the overshoot of a sleep
  and the work of a loop round, the work before the final clock reading): \<open>lag\<close> gives
  these extra times in the order in which they occur. The results and thinking-sessions
  directories are written by the agent processes, so the host gives their content at
  every time; a file whose text is not JSON has the content \<open>None\<close>. \<open>spawn\<close> gives, for
  each attempt to start a process, the process that comes to life or \<open>None\<close> when the
  executable cannot be started.
\<close>

record process =
  exit_time :: "nat option"
  term_delay :: "nat option"
  kill_delay :: nat

record host =
  now :: nat
  processes :: "nat \<Rightarrow> process"
  results_files :: "nat \<Rightarrow> (string \<times> json option) list"
  session_files :: "nat \<Rightarrow> (string \<times> json option) list"
  coordination_dir :: "(string \<times> json) list"
  spawn :: "nat \<Rightarrow> process option"
  spawned :: nat
  lag :: "nat \<Rightarrow> nat"
  pauses :: nat

text \<open>\<^verbatim>\<open>process.poll() is None\<close>: the process has not exited yet.\<close>

definition poll_is_None :: "host \<Rightarrow> nat \<Rightarrow> bool" where
  "poll_is_None h p = (case exit_time (processes h p) of None \<Rightarrow> True | Some e \<Rightarrow> now h < e)"

text \<open>
  \<^verbatim>\<open>process.terminate()\<close>: a running process that honours the request exits after
  its delay, unless it exits earlier by itself.
\<close>

definition terminate :: "nat \<Rightarrow> host \<Rightarrow> host" where
  "terminate p h =
     (if poll_is_None h p
      then (case term_delay (processes h p) of
              None \<Rightarrow> h
            | Some d \<Rightarrow>
                (let e = (case exit_time (processes h p) of
                            None \<Rightarrow> now h + d
                          | Some e0 \<Rightarrow> min e0 (now h + d))
                 in h\<lparr>processes := (processes h)(p := (processes h p)\<lparr>exit_time := Some e\<rparr>)\<rparr>))
      else h)"

text \<open>
  \<^verbatim>\<open>process.wait(timeout=n)\<close>, \<open>n\<close> in seconds: returns when the process has exited
  (\<open>True\<close>), or raises \<^verbatim>\<open>TimeoutExpired\<close> after \<open>n\<close> seconds (\<open>False\<close>).
\<close>

definition wait :: "nat \<Rightarrow> nat \<Rightarrow> host \<Rightarrow> bool \<times> host" where
  "wait p n h =
     (case exit_time (processes h p) of
        None \<Rightarrow> (False, h\<lparr>now := now h + 1000 * n\<rparr>)
      | Some e \<Rightarrow> (if e \<le> now h + 1000 * n then (True, h\<lparr>now := max (now h) e\<rparr>)
                   else (False, h\<lparr>now := now h + 1000 * n\<rparr>)))"

text \<open>
  \<^verbatim>\<open>process.kill()\<close> sends the signal and returns: a running process exits when the
  signal has taken effect, unless it exits earlier.
\<close>

definition kill :: "nat \<Rightarrow> host \<Rightarrow> host" where
  "kill p h =
     (if poll_is_None h p
      then (let e = (case exit_time (processes h p) of
                       None \<Rightarrow> now h + kill_delay (processes h p)
                     | Some e0 \<Rightarrow> min e0 (now h + kill_delay (processes h p)))
            in h\<lparr>processes := (processes h)(p := (processes h p)\<lparr>exit_time := Some e\<rparr>)\<rparr>)
      else h)"



section \<open>AgentLauncher\<close>














section \<open>Notions used in the statements\<close>

text \<open>
  A file name proper: not empty, without NUL byte and path separator, not one of the two
  directory names, and of at most 255 bytes. For such a name \<open>open_write\<close> succeeds.
\<close>

definition file_name_ok :: "string \<Rightarrow> bool" where
  "file_name_ok n =
     (n \<noteq> [] \<and> CHR 0x00 \<notin> set n \<and> CHR ''/'' \<notin> set n \<and> n \<noteq> ''.'' \<and> n \<noteq> ''..''
      \<and> length n \<le> 255)"

text \<open>
  The identifier that \<^verbatim>\<open>initialize_swarm\<close> builds for a specialty from the
  \<open>i\<close>-th identifier the world hands out next, and the five identifiers of one call.
\<close>

definition agent_key :: "string \<Rightarrow> world \<Rightarrow> nat \<Rightarrow> string" where
  "agent_key spec w i = spec @ ''_agent_'' @ hex8 (uuid_bits w (uuid_calls w + i))"

definition generated_agent_ids :: "world \<Rightarrow> string list" where
  "generated_agent_ids w =
     [agent_key ''coordinator'' w 0, agent_key ''analyst'' w 1, agent_key ''validator'' w 2,
      agent_key ''explorer'' w 3, agent_key ''synthesizer'' w 4]"

text \<open>The identifiers of the agents that take part in the two phases, in dictionary order.\<close>

definition non_coordinator_ids :: "(string \<times> SpecialistAgent) list \<Rightarrow> string list" where
  "non_coordinator_ids ags = map fst (filter (\<lambda>(aid, a). specialty a \<noteq> ''coordinator'') ags)"

text \<open>The task object that \<^verbatim>\<open>create_thinking_task\<close> builds in a world.\<close>

definition new_task :: "string \<Rightarrow> bool \<Rightarrow> world \<Rightarrow> Task" where
  "new_task p b w =
     fst (Task_post_init
       \<lparr>task_id = ''thinking_task_'' @ hex8 (uuid_bits w (uuid_calls w)), description = p,
        assigned_to = None, status = ''pending'', created_at = [], completed_at = None,
        result = None, validation_required = True,
        sequential_steps =
          [''phase_1_system_mapping'', ''phase_2_evidence_verification'',
           ''phase_3_minimal_intervention'']
          @ (if b
             then [''collaborative_perspective_gathering'', ''assumption_challenging'',
                   ''solution_space_exploration'', ''insight_synthesis'']
             else [])\<rparr>
       (w\<lparr>uuid_calls := Suc (uuid_calls w)\<rparr>))"

text \<open>The value of \<^verbatim>\<open>final_synthesis\<close> when no synthesizer is found.\<close>

definition synthesizer_unavailable :: json where
  "synthesizer_unavailable = JDict [(''error'', JStr ''Synthesizer agent not available'')]"





text \<open>
  What \<^verbatim>\<open>cleanup_swarm\<close> does to the process of one entry, and one round of the
  \<^verbatim>\<open>for\<close> loop of \<^verbatim>\<open>monitor_swarm\<close>.
\<close>

definition stop :: "nat \<Rightarrow> host \<Rightarrow> host" where
  "stop p h = (if poll_is_None h p
               then (case wait p 10 (terminate p h) of
                       (True, h') \<Rightarrow> h'
                     | (False, h') \<Rightarrow> kill p h')
               else h)"


text \<open>A string without NUL byte and path separator.\<close>

definition safe_chars :: "string \<Rightarrow> bool" where
  "safe_chars s = (CHR 0x00 \<notin> set s \<and> CHR ''/'' \<notin> set s)"

section \<open>Example inputs\<close>

text \<open>
  A world with an empty workspace in which the \<open>n\<close>-th random identifier has the bits of
  \<open>n\<close> and every clock reading is the same second; a pending task, and a task whose
  identifier has a path separator.
\<close>

definition example_world :: world where
  "example_world =
     \<lparr>workspace = \<lparr>base_dir = ''/tmp/swarm_workspace'', messages_dir = [], tasks_dir = [],
                    thinking_sessions_dir = []\<rparr>,
      uuid_bits = (\<lambda>n. n), uuid_calls = 0,
      utcnow_iso = (\<lambda>n. ''2026-01-01T00:00:00''), utcnow_calls = 0,
      time_secs = (\<lambda>n. 1767225600), time_calls = 0\<rparr>"



definition example_message :: "string \<Rightarrow> string \<Rightarrow> AgentMessage" where
  "example_message aid text =
     \<lparr>msg_agent_id = aid, message_type = ''note'', target = ''swarm'',
      timestamp = ''2026-01-01T00:00:00'', payload = JStr text, correlation_id = None,
      requires_validation = True, thinking_stage = None\<rparr>"

definition example_agent :: SpecialistAgent where
  "example_agent = SpecialistAgent_init ''analyst_agent_00000001'' ''analyst''"

definition example_agents :: "(string \<times> SpecialistAgent) list" where
  "example_agents =
     [(''coordinator_agent_00000000'',
         SpecialistAgent_init ''coordinator_agent_00000000'' ''coordinator''),
      (''analyst_agent_00000001'', SpecialistAgent_init ''analyst_agent_00000001'' ''analyst''),
      (''validator_agent_00000002'',
         SpecialistAgent_init ''validator_agent_00000002'' ''validator''),
      (''explorer_agent_00000003'', SpecialistAgent_init ''explorer_agent_00000003'' ''explorer''),
      (''synthesizer_agent_00000004'',
         SpecialistAgent_init ''synthesizer_agent_00000004'' ''synthesizer'')]"





section \<open>File names\<close>

lemma split_slash_plain: "CHR ''/'' \<notin> set n \<Longrightarrow> split_slash n = [n]"
  by (induction n) auto

lemma open_write_ok: "file_name_ok n \<Longrightarrow> open_write files n = Inr n"
  by (cases n) (auto simp add: file_name_ok_def open_write_def split_slash_plain)

lemma str_nat_length: "0 < k \<Longrightarrow> n < 10 ^ k \<Longrightarrow> length (str_nat n) \<le> k"
proof (induction k arbitrary: n)
  case 0
  then show ?case by simp
next
  case (Suc k)
  show ?case
  proof (cases "n < 10")
    case True
    then show ?thesis by (simp add: str_nat.simps[of n])
  next
    case False
    with Suc.prems have "0 < k" by (cases k) auto
    moreover from Suc.prems have "n div 10 < 10 ^ k"
      by (simp add: less_mult_imp_div_less mult.commute)
    ultimately have "length (str_nat (n div 10)) \<le> k" by (rule Suc.IH)
    with False show ?thesis by (simp add: str_nat.simps[of n])
  qed
qed

lemma safe_chars_append: "safe_chars (a @ b) \<longleftrightarrow> safe_chars a \<and> safe_chars b"
  by (auto simp add: safe_chars_def)

lemma safe_chars_Cons: "safe_chars (c # s) \<longleftrightarrow> c \<noteq> CHR 0x00 \<and> c \<noteq> CHR ''/'' \<and> safe_chars s"
  by (auto simp add: safe_chars_def)

lemma safe_chars_Nil: "safe_chars []"
  by (simp add: safe_chars_def)

lemma safe_digit: "d < 10 \<Longrightarrow> safe_chars [''0123456789'' ! d]"
proof -
  assume "d < 10"
  moreover have "length ''0123456789'' = 10" by simp
  ultimately have "d < length ''0123456789''" by simp
  then have "''0123456789'' ! d \<in> set ''0123456789''" by (rule nth_mem)
  moreover have "CHR 0x00 \<notin> set ''0123456789''" "CHR ''/'' \<notin> set ''0123456789''"
    by simp_all
  ultimately have "''0123456789'' ! d \<noteq> CHR 0x00 \<and> ''0123456789'' ! d \<noteq> CHR ''/''"
    by metis
  then show ?thesis by (simp add: safe_chars_Cons safe_chars_Nil)
qed

lemma safe_chars_str_nat: "safe_chars (str_nat n)"
proof (induction n rule: str_nat.induct)
  case (1 n)
  show ?case
  proof (cases "n < 10")
    case True
    then show ?thesis using safe_digit[of n] by (simp add: str_nat.simps[of n])
  next
    case False
    have "n mod 10 < 10" by simp
    from safe_digit[OF this] "1.IH"[OF False] False show ?thesis
      by (simp add: str_nat.simps[of n] safe_chars_append)
  qed
qed

lemma safe_chars_str_int: "safe_chars (str_int i)"
  by (simp add: str_int_def safe_chars_append safe_chars_Cons safe_chars_Nil safe_chars_str_nat)


lemma str_int_sint_length: "length (str_int (sint (x :: 64 word))) \<le> 20"
proof -
  have lo: "- (2 ^ 63) \<le> sint x" using sint_ge[of x] by simp
  have hi: "sint x < 2 ^ 63" using sint_lt[of x] by simp
  have b: "nat \<bar>sint x\<bar> < 10 ^ 19" using lo hi by simp
  have "length (str_nat (nat \<bar>sint x\<bar>)) \<le> 19"
    by (rule str_nat_length[OF _ b]) simp
  then show ?thesis
    by (auto simp add: str_int_def abs_if split: if_splits)
qed


lemma hex_digit_mem: "hex_digit d \<in> set ''0123456789abcdef''"
proof -
  have len: "length ''0123456789abcdef'' = 16" by simp
  have "d mod 16 < 16" by (rule mod_less_divisor) simp
  then have "d mod 16 < length ''0123456789abcdef''" by (simp only: len)
  then show ?thesis unfolding hex_digit_def by (rule nth_mem)
qed

lemma hex_digit_safe: "hex_digit d \<noteq> CHR 0x00 \<and> hex_digit d \<noteq> CHR ''/''"
proof -
  have "CHR 0x00 \<notin> set ''0123456789abcdef''" "CHR ''/'' \<notin> set ''0123456789abcdef''"
    by simp_all
  with hex_digit_mem[of d] show ?thesis by metis
qed

lemma safe_chars_hex8: "safe_chars (hex8 n)"
  by (simp add: hex8_def safe_chars_Cons safe_chars_Nil hex_digit_safe)

lemma hex8_length: "length (hex8 n) = 8"
  by (simp add: hex8_def)

lemma file_name_ok_json:
  "safe_chars s \<Longrightarrow> length s \<le> 250 \<Longrightarrow> file_name_ok (s @ ''.json'')"
  by (auto simp add: file_name_ok_def safe_chars_def)

lemma message_file_ok:
  assumes "safe_chars aid" "length aid \<le> 229"
  shows "file_name_ok (message_file aid (sint (x :: 64 word)))"
proof -
  have "safe_chars (aid @ ''_'' @ str_int (sint x))"
    using assms(1) safe_chars_str_int
    by (simp add: safe_chars_append safe_chars_Cons safe_chars_Nil)
  moreover have "length (aid @ ''_'' @ str_int (sint x)) \<le> 250"
    using assms(2) str_int_sint_length[of x] by simp
  ultimately have "file_name_ok ((aid @ ''_'' @ str_int (sint x)) @ ''.json'')"
    by (rule file_name_ok_json)
  then show ?thesis by (simp add: message_file_def)
qed

lemma agent_key_safe: "safe_chars spec \<Longrightarrow> safe_chars (agent_key spec w i)"
  using safe_chars_hex8
  by (simp add: agent_key_def safe_chars_append safe_chars_Cons safe_chars_Nil)

lemma agent_key_length: "length (agent_key spec w i) = length spec + 15"
  by (simp add: agent_key_def hex8_length)

lemma write_message_ok:
  assumes "safe_chars (msg_agent_id m)" "length (msg_agent_id m) \<le> 229"
  shows "write_message m w =
     (Inr (), w\<lparr>time_calls := Suc (time_calls w),
               workspace := (workspace w)\<lparr>messages_dir :=
                 AList.update (message_file (msg_agent_id m) (sint (time_secs w (time_calls w)))) m
                   (messages_dir (workspace w))\<rparr>\<rparr>)"
  using open_write_ok[OF message_file_ok[OF assms, of "time_secs w (time_calls w)"]]
  by (simp add: write_message_def int_time_def)


section \<open>Writing to the workspace\<close>



lemma write_task_ok:
  "status task \<in> {''pending'', ''active'', ''completed''} \<Longrightarrow>
   file_name_ok (task_id task @ ''.json'') \<Longrightarrow>
     write_task task w =
       (Inr (), w\<lparr>workspace := (workspace w)\<lparr>tasks_dir :=
           AList.update (status task, task_id task @ ''.json'') task (tasks_dir (workspace w))\<rparr>\<rparr>)"
  by (auto simp add: write_task_def task_file_def open_write_ok)


lemma write_message_named:
  assumes "file_name_ok (message_file (msg_agent_id m) (sint (time_secs w (time_calls w))))"
  shows "write_message m w =
     (Inr (), w\<lparr>time_calls := Suc (time_calls w),
               workspace := (workspace w)\<lparr>messages_dir :=
                 AList.update (message_file (msg_agent_id m) (sint (time_secs w (time_calls w)))) m
                   (messages_dir (workspace w))\<rparr>\<rparr>)"
  using open_write_ok[OF assms]
  by (simp add: write_message_def int_time_def)

section \<open>The workspace store\<close>









text \<open>
  C3, as the code has it. \<^verbatim>\<open>write_message\<close> adds no suffix. Take two writes in a
  row whose derived names are file names. Both succeed, and the second message is stored
  under its name. If the two names differ, the first message is still stored under its
  own name. If the agent identifier and the clock reading are the same, the names are
  the same and the store is what writing the second message alone would have left: the
  first message is replaced.
\<close>

theorem write_message_same_name_overwrites:
  assumes "file_name_ok (message_file (msg_agent_id ma) (sint (time_secs w (time_calls w))))"
    and "file_name_ok (message_file (msg_agent_id mb) (sint (time_secs w (Suc (time_calls w)))))"
  shows "fst (write_message ma w) = Inr ()
   \<and> fst (write_message mb (snd (write_message ma w))) = Inr ()
   \<and> map_of (messages_dir (workspace (snd (write_message mb (snd (write_message ma w))))))
      (message_file (msg_agent_id mb) (sint (time_secs w (Suc (time_calls w))))) = Some mb
   \<and> (message_file (msg_agent_id ma) (sint (time_secs w (time_calls w)))
         \<noteq> message_file (msg_agent_id mb) (sint (time_secs w (Suc (time_calls w)))) \<longrightarrow>
       map_of (messages_dir (workspace (snd (write_message mb (snd (write_message ma w))))))
         (message_file (msg_agent_id ma) (sint (time_secs w (time_calls w)))) = Some ma)
   \<and> (msg_agent_id ma = msg_agent_id mb
        \<and> time_secs w (time_calls w) = time_secs w (Suc (time_calls w)) \<longrightarrow>
       messages_dir (workspace (snd (write_message mb (snd (write_message ma w)))))
         = AList.update (message_file (msg_agent_id mb) (sint (time_secs w (time_calls w)))) mb
             (messages_dir (workspace w))
       \<and> (ma \<noteq> mb \<longrightarrow>
            map_of (messages_dir (workspace (snd (write_message mb (snd (write_message ma w))))))
              (message_file (msg_agent_id ma) (sint (time_secs w (time_calls w)))) \<noteq> Some ma))"
proof -
  let ?w1 = "w\<lparr>time_calls := Suc (time_calls w),
               workspace := (workspace w)\<lparr>messages_dir :=
                 AList.update (message_file (msg_agent_id ma) (sint (time_secs w (time_calls w)))) ma
                   (messages_dir (workspace w))\<rparr>\<rparr>"
  have first: "write_message ma w = (Inr (), ?w1)"
    by (rule write_message_named[OF assms(1)])
  have "file_name_ok (message_file (msg_agent_id mb) (sint (time_secs ?w1 (time_calls ?w1))))"
    using assms(2) by simp
  from write_message_named[OF this]
  have second: "write_message mb ?w1 =
     (Inr (), ?w1\<lparr>time_calls := Suc (Suc (time_calls w)),
               workspace := (workspace ?w1)\<lparr>messages_dir :=
                 AList.update (message_file (msg_agent_id mb)
                      (sint (time_secs w (Suc (time_calls w))))) mb
                   (messages_dir (workspace ?w1))\<rparr>\<rparr>)"
    by simp
  show ?thesis
    unfolding first snd_conv fst_conv second
    by (auto simp add: AList.update_conv')
qed

theorem write_message_same_name_overwrites_witness:
  "file_name_ok (message_file ''orchestrator'' 1767225600)
   \<and> file_name_ok (message_file ''analyst_agent_00000001'' 1767225600)
   \<and> map_of (messages_dir (workspace (snd
         (write_message (example_message ''orchestrator'' ''second'')
            (snd (write_message (example_message ''orchestrator'' ''first'') example_world))))))
      ''orchestrator_1767225600.json'' = Some (example_message ''orchestrator'' ''second'')
   \<and> map_of (messages_dir (workspace (snd
         (write_message (example_message ''analyst_agent_00000001'' ''second'')
            (snd (write_message (example_message ''orchestrator'' ''first'') example_world))))))
      ''orchestrator_1767225600.json'' = Some (example_message ''orchestrator'' ''first'')"
proof -
  have s: "sint (1767225600 :: 64 word) = 1767225600" by simp
  have n1: "message_file ''orchestrator'' 1767225600 = ''orchestrator_1767225600.json''"
    by (simp add: message_file_def str_int_def str_nat.simps)
  have n2: "message_file ''analyst_agent_00000001'' 1767225600
              = ''analyst_agent_00000001_1767225600.json''"
    by (simp add: message_file_def str_int_def str_nat.simps)
  have ok1: "file_name_ok (message_file ''orchestrator'' 1767225600)"
    unfolding n1 by (simp add: file_name_ok_def)
  have ok2: "file_name_ok (message_file ''analyst_agent_00000001'' 1767225600)"
    unfolding n2 by (simp add: file_name_ok_def)
  show ?thesis
    using write_message_same_name_overwrites [of "example_message ''orchestrator'' ''first''"
           example_world "example_message ''orchestrator'' ''second''"]
        write_message_same_name_overwrites
          [of "example_message ''orchestrator'' ''first''" example_world
           "example_message ''analyst_agent_00000001'' ''second''"]
        ok1 ok2
    by (simp add: example_message_def example_world_def s n1 n2)
qed

text \<open>
  The claim as it was stated fails: two different messages of the orchestrator written
  in the same second get the same file name, and after the second write the directory
  holds one file, with the second message. The same happens to the messages of the
  identifiers \<^verbatim>\<open>orchestrator\<close> and \<^verbatim>\<open>./orchestrator\<close>, whose derived names differ
  and are one file; and a message of the identifier \<^verbatim>\<open>a/b\<close> is not stored at all.
\<close>

theorem write_message_collision_counterexample:
  "message_file (msg_agent_id (example_message ''orchestrator'' ''first'')) 1767225600
     = message_file (msg_agent_id (example_message ''orchestrator'' ''second'')) 1767225600
   \<and> example_message ''orchestrator'' ''first'' \<noteq> example_message ''orchestrator'' ''second''
   \<and> messages_dir (workspace (snd
         (write_message (example_message ''orchestrator'' ''second'')
            (snd (write_message (example_message ''orchestrator'' ''first'') example_world)))))
       = [(''orchestrator_1767225600.json'', example_message ''orchestrator'' ''second'')]
   \<and> messages_dir (workspace (snd
         (write_message (example_message ''./orchestrator'' ''second'')
            (snd (write_message (example_message ''orchestrator'' ''first'') example_world)))))
       = [(''orchestrator_1767225600.json'', example_message ''./orchestrator'' ''second'')]
   \<and> write_message (example_message ''a/b'' ''first'') example_world
       = (Inl (FileNotFoundError ''a/b_1767225600.json''), example_world\<lparr>time_calls := 1\<rparr>)"
  by (simp add: example_message_def example_world_def write_message_def int_time_def
        message_file_def str_int_def str_nat.simps open_write_def)

section \<open>Facts about the orchestrator\<close>

lemma update_fresh_key: "k \<notin> fst ` set al \<Longrightarrow> AList.update k v al = al @ [(k, v)]"
  by (induction al) auto

lemma length_update_ge: "length al \<le> length (AList.update k v al)"
  by (induction al) auto

lemma log_thinking_specialty: "specialty (fst (log_thinking s c (a, w))) = specialty a"
  by (simp add: log_thinking_def utcnow_isoformat_def Let_def split: prod.splits)

lemma phase1_keys: "map fst (fst (phase1 p ags st)) = map fst ags"
  by (induction p ags st rule: phase1.induct) (auto simp add: Let_def split: prod.splits)

lemma phase2_with_keys: "map fst (fst (phase2_with m p ir ags st)) = map fst ags"
  by (induction m p ir ags st rule: phase2_with.induct) (auto simp add: Let_def split: prod.splits)

lemma phase2_keys: "map fst (fst (phase2 p ir ags st)) = map fst ags"
  by (simp add: phase2_def phase2_with_keys)

lemma phase1_non_coordinator_ids:
  "non_coordinator_ids (fst (phase1 p ags (ir, w))) = non_coordinator_ids ags"
proof (induction ags arbitrary: ir w)
  case Nil
  then show ?case by simp
next
  case (Cons x ags)
  obtain aid a where x: "x = (aid, a)" by (cases x)
  show ?case
    using Cons.IH
    by (simp add: x Let_def sequential_think_def log_thinking_specialty case_prod_beta
          non_coordinator_ids_def)
qed

lemma phase1_results:
  "fst (snd (phase1 p ags (ir, w))) =
     fold (\<lambda>(aid, a) acc. if specialty a \<noteq> ''coordinator''
                           then AList.update aid (thinking_process p) acc else acc) ags ir"
proof (induction ags arbitrary: ir w)
  case Nil
  then show ?case by simp
next
  case (Cons x ags)
  obtain aid a where x: "x = (aid, a)" by (cases x)
  show ?case
    by (simp add: x Let_def Cons.IH sequential_think_def case_prod_beta)
qed

lemma phase2_with_results:
  assumes "\<And>peers a w. fst (m p peers (a, w)) = g p peers"
  shows "fst (snd (phase2_with m p ir0 ags (ur, w))) =
     fold (\<lambda>(aid, a) acc. if specialty a \<noteq> ''coordinator''
             then AList.update aid (g p (other_insights ir0 aid)) acc
             else acc) ags ur"
proof (induction ags arbitrary: ur w)
  case Nil
  then show ?case by simp
next
  case (Cons x ags)
  obtain aid a where x: "x = (aid, a)" by (cases x)
  show ?case
  proof (cases "specialty a \<noteq> ''coordinator''")
    case True
    obtain r a1 w1 where m: "m p (other_insights ir0 aid) (a, w) = (r, a1, w1)"
      by (cases "m p (other_insights ir0 aid) (a, w)")
    with assms[of "other_insights ir0 aid" a w] have r: "r = g p (other_insights ir0 aid)"
      by simp
    show ?thesis
      using True by (simp add: x m r Cons.IH case_prod_beta)
  next
    case False
    then show ?thesis by (simp add: x Cons.IH case_prod_beta)
  qed
qed


lemma phase2_results:
  "fst (snd (phase2 p ir0 ags (ur, w))) =
     fold (\<lambda>(aid, a) acc. if specialty a \<noteq> ''coordinator''
             then AList.update aid (collaborative_insights p (other_insights ir0 aid)) acc
             else acc) ags ur"
  unfolding phase2_def
  by (rule phase2_with_results) (simp add: ultrathink_collaborative_def)

lemma fold_update_distinct:
  assumes "distinct (map fst ags)" "fst ` set acc \<inter> fst ` set ags = {}"
  shows "fold (\<lambda>(aid, a) acc. if P a then AList.update aid (f aid) acc else acc) ags acc
         = acc @ map (\<lambda>(aid, a). (aid, f aid)) (filter (\<lambda>(aid, a). P a) ags)"
  using assms
proof (induction ags arbitrary: acc)
  case Nil
  then show ?case by simp
next
  case (Cons x ags)
  obtain aid a where x: "x = (aid, a)" by (cases x)
  from Cons.prems have fresh: "aid \<notin> fst ` set acc" and d: "distinct (map fst ags)"
    and nin: "aid \<notin> fst ` set ags" and disj: "fst ` set acc \<inter> fst ` set ags = {}"
    by (auto simp add: x)
  show ?case
  proof (cases "P a")
    case True
    have "fst ` set (acc @ [(aid, f aid)]) \<inter> fst ` set ags = {}"
      using disj nin by auto
    then show ?thesis
      using True Cons.IH[OF d, of "acc @ [(aid, f aid)]"] fresh
      by (simp add: x update_fresh_key)
  next
    case False
    then show ?thesis using Cons.IH[OF d disj] by (simp add: x)
  qed
qed

lemma phase1_individual_results:
  assumes "distinct (map fst ags)"
  shows "fst (snd (phase1 p ags ([], w))) =
         map (\<lambda>aid. (aid, thinking_process p)) (non_coordinator_ids ags)"
  using fold_update_distinct[OF assms, of "[]" "\<lambda>a. specialty a \<noteq> ''coordinator''"
          "\<lambda>aid. thinking_process p"]
  by (simp add: phase1_results non_coordinator_ids_def comp_def case_prod_beta)


lemma phase2_ultrathink_results:
  assumes "distinct (map fst ags)"
  shows "fst (snd (phase2 p ir ags ([], w))) =
         map (\<lambda>aid. (aid, collaborative_insights p (other_insights ir aid)))
             (non_coordinator_ids ags)"
  using fold_update_distinct[OF assms, of "[]" "\<lambda>a. specialty a \<noteq> ''coordinator''"
          "\<lambda>aid. collaborative_insights p (other_insights ir aid)"]
  by (simp add: phase2_results non_coordinator_ids_def comp_def case_prod_beta)


lemma distinct_non_coordinator_ids:
  "distinct (map fst ags) \<Longrightarrow> distinct (non_coordinator_ids ags)"
  by (simp add: non_coordinator_ids_def distinct_map_filter)

lemma initialize_agent_ok:
  assumes "safe_chars spec" "length spec \<le> 214"
  shows "\<exists>w'. initialize_agent (spec, descr) (self, ia, w) =
       (Inr (),
        self\<lparr>agents := AList.update (agent_key spec w 0)
                  (SpecialistAgent_init (agent_key spec w 0) spec) (agents self)\<rparr>,
        AList.update (agent_key spec w 0)
          (JDict [(''specialty'', JStr spec), (''description'', JStr descr),
                  (''status'', JStr ''ready'')]) ia,
        w')
     \<and> uuid_bits w' = uuid_bits w \<and> uuid_calls w' = Suc (uuid_calls w)
     \<and> base_dir (workspace w') = base_dir (workspace w)"
proof -
  let ?aid = "agent_key spec w 0"
  let ?w2 = "w\<lparr>uuid_calls := Suc (uuid_calls w), utcnow_calls := Suc (utcnow_calls w)\<rparr>"
  define m where "m = \<lparr>msg_agent_id = ?aid, message_type = ''agent_initialized'',
            target = ''swarm'', timestamp = utcnow_iso w (utcnow_calls w),
            payload = JDict [(''specialty'', JStr spec), (''capabilities'', JStr descr)],
            correlation_id = None, requires_validation = True, thinking_stage = None\<rparr>"
  have s: "safe_chars (msg_agent_id m)"
    using agent_key_safe[OF assms(1)] by (simp add: m_def)
  have l: "length (msg_agent_id m) \<le> 229"
    using assms(2) by (simp add: m_def agent_key_length)
  obtain w' where wm: "write_message m ?w2 = (Inr (), w')"
    and w': "uuid_bits w' = uuid_bits w" "uuid_calls w' = Suc (uuid_calls w)"
            "base_dir (workspace w') = base_dir (workspace w)"
    using write_message_ok[OF s l, of ?w2] by simp
  have "initialize_agent (spec, descr) (self, ia, w) =
       (Inr (),
        self\<lparr>agents := AList.update ?aid (SpecialistAgent_init ?aid spec) (agents self)\<rparr>,
        AList.update ?aid
          (JDict [(''specialty'', JStr spec), (''description'', JStr descr),
                  (''status'', JStr ''ready'')]) ia,
        w')"
    using wm
    by (simp add: initialize_agent_def uuid4_hex8_def utcnow_isoformat_def Let_def
          agent_key_def m_def)
  with w' show ?thesis by blast
qed


lemma agent_key_later:
  "uuid_bits w' = uuid_bits w \<Longrightarrow> uuid_calls w' = uuid_calls w + i \<Longrightarrow>
     agent_key spec w' 0 = agent_key spec w i"
  by (simp add: agent_key_def)

lemma initialize_swarm_ok:
  "\<exists>w'. initialize_swarm (self, w) =
     (Inr (JDict [(''status'', JStr ''swarm_initialized''),
                  (''agents'', JDict (map (\<lambda>(aid, spec, descr).
                         (aid, JDict [(''specialty'', JStr spec), (''description'', JStr descr),
                                      (''status'', JStr ''ready'')]))
                      (zip (generated_agent_ids w) agent_specialties))),
                  (''workspace'', JStr (base_dir (workspace w))),
                  (''coordination_method'', JStr ''file_based_communication_hub'')]),
      self\<lparr>agents :=
        AList.update (agent_key ''synthesizer'' w 4)
           (SpecialistAgent_init (agent_key ''synthesizer'' w 4) ''synthesizer'')
        (AList.update (agent_key ''explorer'' w 3)
           (SpecialistAgent_init (agent_key ''explorer'' w 3) ''explorer'')
         (AList.update (agent_key ''validator'' w 2)
           (SpecialistAgent_init (agent_key ''validator'' w 2) ''validator'')
          (AList.update (agent_key ''analyst'' w 1)
           (SpecialistAgent_init (agent_key ''analyst'' w 1) ''analyst'')
           (AList.update (agent_key ''coordinator'' w 0)
           (SpecialistAgent_init (agent_key ''coordinator'' w 0) ''coordinator'')
            (agents self)))))\<rparr>,
      w')
    \<and> uuid_bits w' = uuid_bits w \<and> uuid_calls w' = uuid_calls w + 5"
proof -
  have sc: "safe_chars ''coordinator''" "safe_chars ''analyst''" "safe_chars ''validator''"
    "safe_chars ''explorer''" "safe_chars ''synthesizer''"
    by (simp_all add: safe_chars_def)
  note step = initialize_agent_ok
  obtain st1 w1 where
    s1: "initialize_agent (agent_specialties ! 0) (self, [], w) = (Inr (), fst st1, snd st1, w1)"
    and st1: "st1 = (self\<lparr>agents := AList.update (agent_key ''coordinator'' w 0)
                  (SpecialistAgent_init (agent_key ''coordinator'' w 0) ''coordinator'')
                  (agents self)\<rparr>,
               AList.update (agent_key ''coordinator'' w 0)
                 (JDict [(''specialty'', JStr ''coordinator''),
                         (''description'', JStr (snd (agent_specialties ! 0))),
                         (''status'', JStr ''ready'')]) [])"
    and w1: "uuid_bits w1 = uuid_bits w" "uuid_calls w1 = uuid_calls w + 1"
            "base_dir (workspace w1) = base_dir (workspace w)"
    using step[OF sc(1), of "snd (agent_specialties ! 0)" self "[]" w]
    by (auto simp add: agent_specialties_def)
  obtain st2 w2 where
    s2: "initialize_agent (agent_specialties ! 1) (fst st1, snd st1, w1) = (Inr (), fst st2, snd st2, w2)"
    and st2: "st2 = ((fst st1)\<lparr>agents := AList.update (agent_key ''analyst'' w 1)
                  (SpecialistAgent_init (agent_key ''analyst'' w 1) ''analyst'')
                  (agents (fst st1))\<rparr>,
               AList.update (agent_key ''analyst'' w 1)
                 (JDict [(''specialty'', JStr ''analyst''),
                         (''description'', JStr (snd (agent_specialties ! 1))),
                         (''status'', JStr ''ready'')]) (snd st1))"
    and w2: "uuid_bits w2 = uuid_bits w" "uuid_calls w2 = uuid_calls w + 2"
            "base_dir (workspace w2) = base_dir (workspace w)"
    using step[OF sc(2), of "snd (agent_specialties ! 1)" "fst st1" "snd st1" w1]
          agent_key_later[OF w1(1,2), of "''analyst''"] w1
    by (auto simp add: agent_specialties_def)
  obtain st3 w3 where
    s3: "initialize_agent (agent_specialties ! 2) (fst st2, snd st2, w2) = (Inr (), fst st3, snd st3, w3)"
    and st3: "st3 = ((fst st2)\<lparr>agents := AList.update (agent_key ''validator'' w 2)
                  (SpecialistAgent_init (agent_key ''validator'' w 2) ''validator'')
                  (agents (fst st2))\<rparr>,
               AList.update (agent_key ''validator'' w 2)
                 (JDict [(''specialty'', JStr ''validator''),
                         (''description'', JStr (snd (agent_specialties ! 2))),
                         (''status'', JStr ''ready'')]) (snd st2))"
    and w3: "uuid_bits w3 = uuid_bits w" "uuid_calls w3 = uuid_calls w + 3"
            "base_dir (workspace w3) = base_dir (workspace w)"
    using step[OF sc(3), of "snd (agent_specialties ! 2)" "fst st2" "snd st2" w2]
          agent_key_later[OF w2(1,2), of "''validator''"] w2
    by (auto simp add: agent_specialties_def)
  obtain st4 w4 where
    s4: "initialize_agent (agent_specialties ! 3) (fst st3, snd st3, w3) = (Inr (), fst st4, snd st4, w4)"
    and st4: "st4 = ((fst st3)\<lparr>agents := AList.update (agent_key ''explorer'' w 3)
                  (SpecialistAgent_init (agent_key ''explorer'' w 3) ''explorer'')
                  (agents (fst st3))\<rparr>,
               AList.update (agent_key ''explorer'' w 3)
                 (JDict [(''specialty'', JStr ''explorer''),
                         (''description'', JStr (snd (agent_specialties ! 3))),
                         (''status'', JStr ''ready'')]) (snd st3))"
    and w4: "uuid_bits w4 = uuid_bits w" "uuid_calls w4 = uuid_calls w + 4"
            "base_dir (workspace w4) = base_dir (workspace w)"
    using step[OF sc(4), of "snd (agent_specialties ! 3)" "fst st3" "snd st3" w3]
          agent_key_later[OF w3(1,2), of "''explorer''"] w3
    by (auto simp add: agent_specialties_def)
  obtain st5 w5 where
    s5: "initialize_agent (agent_specialties ! 4) (fst st4, snd st4, w4) = (Inr (), fst st5, snd st5, w5)"
    and st5: "st5 = ((fst st4)\<lparr>agents := AList.update (agent_key ''synthesizer'' w 4)
                  (SpecialistAgent_init (agent_key ''synthesizer'' w 4) ''synthesizer'')
                  (agents (fst st4))\<rparr>,
               AList.update (agent_key ''synthesizer'' w 4)
                 (JDict [(''specialty'', JStr ''synthesizer''),
                         (''description'', JStr (snd (agent_specialties ! 4))),
                         (''status'', JStr ''ready'')]) (snd st4))"
    and w5: "uuid_bits w5 = uuid_bits w" "uuid_calls w5 = uuid_calls w + 5"
            "base_dir (workspace w5) = base_dir (workspace w)"
    using step[OF sc(5), of "snd (agent_specialties ! 4)" "fst st4" "snd st4" w4]
          agent_key_later[OF w4(1,2), of "''synthesizer''"] w4
    by (auto simp add: agent_specialties_def)
  have list: "agent_specialties = [agent_specialties ! 0, agent_specialties ! 1,
       agent_specialties ! 2, agent_specialties ! 3, agent_specialties ! 4]"
    by (simp add: agent_specialties_def)
  have run: "initialize_agents agent_specialties (self, [], w) = (Inr (), fst st5, snd st5, w5)"
    by (subst list) (simp only: initialize_agents.simps s1 s2 s3 s4 s5 prod.case sum.case)
  have ia: "snd st5 = map (\<lambda>(aid, spec, descr).
                         (aid, JDict [(''specialty'', JStr spec), (''description'', JStr descr),
                                      (''status'', JStr ''ready'')]))
                      (zip (generated_agent_ids w) agent_specialties)"
    by (simp add: st5 st4 st3 st2 st1 generated_agent_ids_def agent_specialties_def
          agent_key_def)
  have "initialize_swarm (self, w) =
     (Inr (JDict [(''status'', JStr ''swarm_initialized''),
                  (''agents'', JDict (snd st5)),
                  (''workspace'', JStr (base_dir (workspace w))),
                  (''coordination_method'', JStr ''file_based_communication_hub'')]),
      fst st5, w5)"
    by (simp add: initialize_swarm_def run w5)
  then show ?thesis
    unfolding ia using w5(1,2)
    by (simp add: st5 st4 st3 st2 st1)
qed

lemma initialize_swarm_agents:
  "agents (fst (snd (initialize_swarm (self, w)))) =
     AList.update (agent_key ''synthesizer'' w 4)
         (SpecialistAgent_init (agent_key ''synthesizer'' w 4) ''synthesizer'')
      (AList.update (agent_key ''explorer'' w 3)
         (SpecialistAgent_init (agent_key ''explorer'' w 3) ''explorer'')
       (AList.update (agent_key ''validator'' w 2)
         (SpecialistAgent_init (agent_key ''validator'' w 2) ''validator'')
        (AList.update (agent_key ''analyst'' w 1)
         (SpecialistAgent_init (agent_key ''analyst'' w 1) ''analyst'')
         (AList.update (agent_key ''coordinator'' w 0)
         (SpecialistAgent_init (agent_key ''coordinator'' w 0) ''coordinator'')
          (agents self)))))"
  using initialize_swarm_ok[of self w] by auto

lemma initialize_swarm_returned:
  "fst (initialize_swarm (self, w)) =
     Inr (JDict [(''status'', JStr ''swarm_initialized''),
                  (''agents'', JDict (map (\<lambda>(aid, spec, descr).
                         (aid, JDict [(''specialty'', JStr spec), (''description'', JStr descr),
                                      (''status'', JStr ''ready'')]))
                      (zip (generated_agent_ids w) agent_specialties))),
                  (''workspace'', JStr (base_dir (workspace w))),
                  (''coordination_method'', JStr ''file_based_communication_hub'')])"
  using initialize_swarm_ok[of self w] by auto

lemma initialize_swarm_uuid:
  "uuid_bits (snd (snd (initialize_swarm (self, w)))) = uuid_bits w"
  "uuid_calls (snd (snd (initialize_swarm (self, w)))) = uuid_calls w + 5"
  using initialize_swarm_ok[of self w] by auto

lemma fresh_agents:
  "agents (fst (snd (initialize_swarm (SwarmOrchestrator_init n, w)))) =
     [(agent_key ''coordinator'' w 0,
         SpecialistAgent_init (agent_key ''coordinator'' w 0) ''coordinator''),
      (agent_key ''analyst'' w 1, SpecialistAgent_init (agent_key ''analyst'' w 1) ''analyst''),
      (agent_key ''validator'' w 2,
         SpecialistAgent_init (agent_key ''validator'' w 2) ''validator''),
      (agent_key ''explorer'' w 3, SpecialistAgent_init (agent_key ''explorer'' w 3) ''explorer''),
      (agent_key ''synthesizer'' w 4,
         SpecialistAgent_init (agent_key ''synthesizer'' w 4) ''synthesizer'')]"
  unfolding initialize_swarm_agents
  by (simp add: SwarmOrchestrator_init_def agent_key_def)

lemma generated_agent_ids_distinct: "distinct (generated_agent_ids w)"
  by (simp add: generated_agent_ids_def agent_key_def)

lemma synthesizer_agent_not_generated: "''synthesizer_agent'' \<notin> set (generated_agent_ids w)"
  by (simp add: generated_agent_ids_def agent_key_def hex8_def)

lemma fresh_agents_keys:
  "map fst (agents (fst (snd (initialize_swarm (SwarmOrchestrator_init n, w)))))
     = generated_agent_ids w"
  by (simp add: fresh_agents generated_agent_ids_def)

lemma fresh_agents_non_coordinator:
  "non_coordinator_ids (agents (fst (snd (initialize_swarm (SwarmOrchestrator_init n, w)))))
     = tl (generated_agent_ids w)"
  by (simp add: fresh_agents generated_agent_ids_def non_coordinator_ids_def
        SpecialistAgent_init_def)

lemma task_name_ok: "file_name_ok ((''thinking_task_'' @ hex8 x) @ ''.json'')"
  by (rule file_name_ok_json)
     (simp_all add: safe_chars_append safe_chars_Cons safe_chars_Nil safe_chars_hex8 hex8_length)

lemma new_task_fields:
  "task_id (new_task p b w) = ''thinking_task_'' @ hex8 (uuid_bits w (uuid_calls w))"
  "status (new_task p b w) = ''pending''"
  by (simp_all add: new_task_def Task_post_init_def utcnow_isoformat_def split: prod.splits)

lemma create_thinking_task_ok:
  "\<exists>w'. create_thinking_task p b (self, w) =
     (Inr (''thinking_task_'' @ hex8 (uuid_bits w (uuid_calls w))),
      self\<lparr>active_tasks := AList.update (''thinking_task_'' @ hex8 (uuid_bits w (uuid_calls w)))
         (new_task p b w) (active_tasks self)\<rparr>, w')"
proof -
  let ?tid = "''thinking_task_'' @ hex8 (uuid_bits w (uuid_calls w))"
  let ?w1 = "w\<lparr>uuid_calls := Suc (uuid_calls w)\<rparr>"
  let ?steps = "[''phase_1_system_mapping'', ''phase_2_evidence_verification'',
                   ''phase_3_minimal_intervention'']
                  @ (if b
                     then [''collaborative_perspective_gathering'', ''assumption_challenging'',
                           ''solution_space_exploration'', ''insight_synthesis'']
                     else [])"
  let ?T = "\<lparr>task_id = ?tid, description = p, assigned_to = None,
             status = ''pending'', created_at = [], completed_at = None, result = None,
             validation_required = True, sequential_steps = ?steps\<rparr>"
  obtain w2 where post: "Task_post_init ?T ?w1 = (new_task p b w, w2)"
    by (cases "Task_post_init ?T ?w1") (simp add: new_task_def)
  have ok: "file_name_ok (task_id (new_task p b w) @ ''.json'')"
    by (simp only: new_task_fields task_name_ok)
  have st: "status (new_task p b w) \<in> {''pending'', ''active'', ''completed''}"
    by (simp add: new_task_fields)
  obtain w3 where wt: "write_task (new_task p b w) w2 = (Inr (), w3)"
    using write_task_ok[OF st ok, of w2] by simp
  obtain now w4 where u: "utcnow_isoformat w3 = (now, w4)"
    by (cases "utcnow_isoformat w3")
  define m where "m = \<lparr>msg_agent_id = ''orchestrator'', message_type = ''task_created'',
                    target = ''all_agents'', timestamp = now,
                    payload = JDict [(''task_id'', JStr ?tid),
                                     (''description'', JStr p),
                                     (''sequential_steps'', JList (map JStr ?steps)),
                                     (''require_ultrathink'', JBool b)],
                    correlation_id = Some ?tid, requires_validation = True,
                    thinking_stage = None\<rparr>"
  have "safe_chars (msg_agent_id m)" "length (msg_agent_id m) \<le> 229"
    by (simp_all add: m_def safe_chars_def)
  from write_message_ok[OF this, of w4]
  obtain w5 where wm: "write_message m w4 = (Inr (), w5)"
    by simp
  have "create_thinking_task p b (self, w) =
     (Inr ?tid, self\<lparr>active_tasks := AList.update ?tid (new_task p b w) (active_tasks self)\<rparr>, w5)"
    using post wt u wm
    by (simp add: create_thinking_task_def uuid4_hex8_def Let_def m_def)
  then show ?thesis by blast
qed

lemma move_task_completed:
  assumes "file_name_ok (task_id t @ ''.json'')"
  shows "\<exists>w'. move_task t ''completed'' w =
     (Inr (), t\<lparr>status := ''completed'', completed_at := Some (utcnow_iso w (utcnow_calls w))\<rparr>, w')
     \<and> map_of (tasks_dir (workspace w')) (''completed'', task_id t @ ''.json'')
         = Some (t\<lparr>status := ''completed'',
                   completed_at := Some (utcnow_iso w (utcnow_calls w))\<rparr>)"
  using assms
  by (simp add: move_task_def write_task_ok utcnow_isoformat_def Let_def
        AList.update_conv' split: prod.splits)

lemma execute_unfold:
  assumes "agents (fst sw) = [] \<Longrightarrow> \<exists>r. initialize_swarm sw = (Inr r, sw0)"
    and "agents (fst sw) \<noteq> [] \<Longrightarrow> sw = sw0"
    and "create_thinking_task p True sw0 = (Inr tid, self1, w1)"
    and "phase1 p (agents self1) ([], w1) = (ags1, ir, w2)"
    and "phase2 p ir ags1 ([], w2) = (ags2, ur, w3)"
    and "map_of (active_tasks self1) tid = Some T"
    and "move_task (T\<lparr>result := Some (JDict [
            (''individual_sequential_thinking'', JDict ir),
            (''collaborative_ultrathink'', JDict ur),
            (''final_synthesis'', final_synthesis ags2 ur),
            (''swarm_consensus'', achieve_consensus ir ur)])\<rparr>) ''completed'' w3
          = (Inr (), T2, w4)"
    and "result T2 = Some res"
  shows "execute_sequential_swarm_thinking p sw =
           (Inr res, self1\<lparr>agents := ags2,
                           active_tasks := AList.update tid T2 (active_tasks self1)\<rparr>, w4)"
proof (cases "agents (fst sw) = []")
  case True
  with assms(1) obtain r where "initialize_swarm sw = (Inr r, sw0)" by blast
  with True assms(3-) show ?thesis
    by (cases sw0) (simp add: execute_sequential_swarm_thinking_def Let_def)
next
  case False
  with assms(2) have "sw = sw0" by blast
  with False assms(3-) show ?thesis
    by (cases sw0) (simp add: execute_sequential_swarm_thinking_def Let_def)
qed

lemma execute_outcome:
  fixes p sw sw0
  assumes start: "agents (fst sw) = [] \<Longrightarrow> \<exists>r. initialize_swarm sw = (Inr r, sw0)"
                 "agents (fst sw) \<noteq> [] \<Longrightarrow> sw = sw0"
  defines "tid \<equiv> ''thinking_task_'' @ hex8 (uuid_bits (snd sw0) (uuid_calls (snd sw0)))"
  defines "ph1 \<equiv> phase1 p (agents (fst sw0)) ([], snd (snd (create_thinking_task p True sw0)))"
  defines "ph2 \<equiv> phase2 p (fst (snd ph1)) (fst ph1) ([], snd (snd ph1))"
  defines "res \<equiv> JDict [(''individual_sequential_thinking'', JDict (fst (snd ph1))),
                 (''collaborative_ultrathink'', JDict (fst (snd ph2))),
                 (''final_synthesis'', final_synthesis (fst ph2) (fst (snd ph2))),
                 (''swarm_consensus'', achieve_consensus (fst (snd ph1)) (fst (snd ph2)))]"
  shows "\<exists>self' w' T. execute_sequential_swarm_thinking p sw = (Inr res, self', w')
           \<and> map_of (active_tasks self') tid = Some T
           \<and> map_of (tasks_dir (workspace w')) (''completed'', tid @ ''.json'') = Some T
           \<and> status T = ''completed'' \<and> completed_at T \<noteq> None \<and> result T = Some res
           \<and> task_id T = tid"
proof -
  obtain self0 w0 where sw0: "sw0 = (self0, w0)" by (cases sw0)
  define self1 where
    "self1 = self0\<lparr>active_tasks := AList.update tid (new_task p True w0) (active_tasks self0)\<rparr>"
  obtain w1 where ct: "create_thinking_task p True sw0 = (Inr tid, self1, w1)"
    using create_thinking_task_ok[of p True self0 w0] by (auto simp add: tid_def sw0 self1_def)
  obtain ags1 ir w2 where p1: "phase1 p (agents self1) ([], w1) = (ags1, ir, w2)"
    by (cases "phase1 p (agents self1) ([], w1)")
  obtain ags2 ur w3 where p2: "phase2 p ir ags1 ([], w2) = (ags2, ur, w3)"
    by (cases "phase2 p ir ags1 ([], w2)")
  have ph1: "ph1 = (ags1, ir, w2)"
    using p1 by (simp add: ph1_def ct[unfolded sw0] sw0 self1_def)
  have ph2: "ph2 = (ags2, ur, w3)"
    using p2 by (simp add: ph2_def ph1)
  have res: "res = JDict [(''individual_sequential_thinking'', JDict ir),
            (''collaborative_ultrathink'', JDict ur),
            (''final_synthesis'', final_synthesis ags2 ur),
            (''swarm_consensus'', achieve_consensus ir ur)]"
    by (simp add: res_def ph1 ph2)
  define T0 where "T0 = (new_task p True w0)\<lparr>result := Some res\<rparr>"
  define T2 where "T2 = T0\<lparr>status := ''completed'',
          completed_at := Some (utcnow_iso w3 (utcnow_calls w3))\<rparr>"
  have tidT0: "task_id T0 = tid"
    by (simp add: T0_def new_task_fields tid_def sw0)
  have okT0: "file_name_ok (task_id T0 @ ''.json'')"
    unfolding tidT0 tid_def by (rule task_name_ok)
  obtain w4 where mt: "move_task T0 ''completed'' w3 = (Inr (), T2, w4)"
     and stored: "map_of (tasks_dir (workspace w4)) (''completed'', task_id T0 @ ''.json'')
                    = Some T2"
    using move_task_completed[OF okT0, of w3] by (auto simp add: T2_def)
  have look: "map_of (active_tasks self1) tid = Some (new_task p True w0)"
    by (simp add: self1_def AList.update_conv')
  have ex: "execute_sequential_swarm_thinking p sw =
           (Inr res, self1\<lparr>agents := ags2,
                           active_tasks := AList.update tid T2 (active_tasks self1)\<rparr>, w4)"
    using execute_unfold[OF start ct p1 p2 look, of T2 w4 res] mt
    by (simp add: T0_def res T2_def)
  show ?thesis
    unfolding ex using stored tidT0
    by (simp add: AList.update_conv' T2_def T0_def)
qed

lemma example_first_ids:
  "generated_agent_ids example_world
      = [''coordinator_agent_00000000'', ''analyst_agent_00000001'',
         ''validator_agent_00000002'', ''explorer_agent_00000003'',
         ''synthesizer_agent_00000004'']"
  by (simp add: generated_agent_ids_def agent_key_def example_world_def hex8_def hex_digit_def)

lemma example_second_ids:
  "generated_agent_ids (snd (snd (initialize_swarm (SwarmOrchestrator_init 5, example_world))))
      = [''coordinator_agent_00000005'', ''analyst_agent_00000006'',
         ''validator_agent_00000007'', ''explorer_agent_00000008'',
         ''synthesizer_agent_00000009'']"
  by (simp add: generated_agent_ids_def agent_key_def initialize_swarm_uuid
        example_world_def hex8_def hex_digit_def)

lemma example_first_agents:
  "agents (fst (snd (initialize_swarm (SwarmOrchestrator_init 5, example_world))))
     = example_agents"
  using example_first_ids
  by (simp add: fresh_agents example_agents_def generated_agent_ids_def)

section \<open>The thinking protocol\<close>

text \<open>
  C1. On a fresh orchestrator \<^verbatim>\<open>execute_sequential_swarm_thinking\<close> returns the result
  bundle; the task is held under its identifier and stored in the completed queue, with
  status \<^verbatim>\<open>completed\<close>, a completion timestamp and the bundle as result; both phase
  dictionaries are keyed by the four agents that are not the coordinator. The final
  synthesis, however, is the error marker in every world: the synthesizer is looked up
  under the key \<^verbatim>\<open>synthesizer_agent\<close>, and the agents are stored under
  \<^verbatim>\<open>synthesizer_agent_<hex>\<close> and the like.
\<close>

theorem execute_fresh_swarm_synthesis_unavailable:
  "\<exists>res self' w' T.
     execute_sequential_swarm_thinking problem (SwarmOrchestrator_init n, w) = (Inr res, self', w')
     \<and> map_of (active_tasks self')
          (''thinking_task_'' @ hex8 (uuid_bits w (uuid_calls w + 5))) = Some T
     \<and> map_of (tasks_dir (workspace w'))
          (''completed'', (''thinking_task_'' @ hex8 (uuid_bits w (uuid_calls w + 5))) @ ''.json'')
         = Some T
     \<and> status T = ''completed'' \<and> completed_at T \<noteq> None \<and> result T = Some res
     \<and> (case jget res ''individual_sequential_thinking'' of
           Some d \<Rightarrow> jkeys d = tl (generated_agent_ids w) | None \<Rightarrow> False)
     \<and> (case jget res ''collaborative_ultrathink'' of
           Some d \<Rightarrow> jkeys d = tl (generated_agent_ids w) | None \<Rightarrow> False)
     \<and> jget res ''final_synthesis'' = Some synthesizer_unavailable"
proof -
  let ?sw = "(SwarmOrchestrator_init n, w)"
  let ?init = "snd (initialize_swarm ?sw)"
  let ?ags = "agents (fst ?init)"
  let ?tid = "''thinking_task_'' @ hex8 (uuid_bits w (uuid_calls w + 5))"
  define ph1 where "ph1 = phase1 problem ?ags ([], snd (snd (create_thinking_task problem True ?init)))"
  define ph2 where "ph2 = phase2 problem (fst (snd ph1)) (fst ph1) ([], snd (snd ph1))"
  define res where "res = JDict [(''individual_sequential_thinking'', JDict (fst (snd ph1))),
                 (''collaborative_ultrathink'', JDict (fst (snd ph2))),
                 (''final_synthesis'', final_synthesis (fst ph2) (fst (snd ph2))),
                 (''swarm_consensus'', achieve_consensus (fst (snd ph1)) (fst (snd ph2)))]"
  have empty: "agents (fst ?sw) = []"
    by (simp add: SwarmOrchestrator_init_def)
  have start: "agents (fst ?sw) = [] \<Longrightarrow> \<exists>r. initialize_swarm ?sw = (Inr r, ?init)"
    using initialize_swarm_returned[of "SwarmOrchestrator_init n" w]
    by (metis prod.collapse)
  have other: "agents (fst ?sw) \<noteq> [] \<Longrightarrow> ?sw = ?init"
    using empty by simp
  have tid: "''thinking_task_'' @ hex8 (uuid_bits (snd ?init) (uuid_calls (snd ?init))) = ?tid"
    by (simp add: initialize_swarm_uuid)
  obtain self' w' T where
    ex: "execute_sequential_swarm_thinking problem ?sw = (Inr res, self', w')"
    and T: "map_of (active_tasks self') ?tid = Some T"
       "map_of (tasks_dir (workspace w')) (''completed'', ?tid @ ''.json'') = Some T"
       "status T = ''completed''" "completed_at T \<noteq> None" "result T = Some res"
    using execute_outcome[OF start other, of problem]
    unfolding tid ph1_def[symmetric] ph2_def[symmetric] res_def[symmetric]
    by blast
  have d: "distinct (map fst ?ags)"
    by (simp only: fresh_agents_keys generated_agent_ids_distinct)
  have ir: "map fst (fst (snd ph1)) = tl (generated_agent_ids w)"
    unfolding ph1_def
    by (simp add: phase1_individual_results[OF d] fresh_agents_non_coordinator comp_def)
  have d1: "distinct (map fst (fst ph1))"
    unfolding ph1_def using d by (simp only: phase1_keys)
  have nc1: "non_coordinator_ids (fst ph1) = tl (generated_agent_ids w)"
    unfolding ph1_def by (simp only: phase1_non_coordinator_ids fresh_agents_non_coordinator)
  have ur: "map fst (fst (snd ph2)) = tl (generated_agent_ids w)"
    unfolding ph2_def
    by (simp add: phase2_ultrathink_results[OF d1] nc1 comp_def)
  have keys2: "map fst (fst ph2) = generated_agent_ids w"
    unfolding ph2_def ph1_def by (simp only: phase2_keys phase1_keys fresh_agents_keys)
  have "map_of (fst ph2) ''synthesizer_agent'' = None"
    using synthesizer_agent_not_generated[of w] keys2
    by (metis map_of_eq_None_iff set_map)
  then have fs: "final_synthesis (fst ph2) (fst (snd ph2)) = synthesizer_unavailable"
    by (simp add: final_synthesis_def synthesizer_unavailable_def)
  have "(case jget res ''individual_sequential_thinking'' of
           Some d \<Rightarrow> jkeys d = tl (generated_agent_ids w) | None \<Rightarrow> False)
     \<and> (case jget res ''collaborative_ultrathink'' of
           Some d \<Rightarrow> jkeys d = tl (generated_agent_ids w) | None \<Rightarrow> False)
     \<and> jget res ''final_synthesis'' = Some synthesizer_unavailable"
    by (simp add: res_def ir ur fs)
  with ex T show ?thesis by blast
qed

text \<open>
  C2, as the code has it. \<^verbatim>\<open>initialize_swarm\<close> never removes an agent: the
  identifiers held afterwards are those held before and the five new ones, an agent under
  another identifier than the new ones is kept as it was, and under each new identifier
  the orchestrator holds a new agent of the role the identifier was made for. The call
  returns the dictionary that lists the five new identifiers, each with its role, the
  description of the role and the status \<^verbatim>\<open>ready\<close>.
\<close>

theorem initialize_swarm_accumulates:
  "set (map fst (agents (fst (snd (initialize_swarm (self, w))))))
     = set (map fst (agents self)) \<union> set (generated_agent_ids w)
   \<and> length (agents self) \<le> length (agents (fst (snd (initialize_swarm (self, w)))))
   \<and> (\<forall>k. k \<notin> set (generated_agent_ids w) \<longrightarrow>
         map_of (agents (fst (snd (initialize_swarm (self, w))))) k = map_of (agents self) k)
   \<and> (\<forall>(aid, spec, descr) \<in> set (zip (generated_agent_ids w) agent_specialties).
         map_of (agents (fst (snd (initialize_swarm (self, w))))) aid
           = Some (SpecialistAgent_init aid spec))
   \<and> fst (initialize_swarm (self, w))
       = Inr (JDict [(''status'', JStr ''swarm_initialized''),
                     (''agents'', JDict (map (\<lambda>(aid, spec, descr).
                         (aid, JDict [(''specialty'', JStr spec), (''description'', JStr descr),
                                      (''status'', JStr ''ready'')]))
                       (zip (generated_agent_ids w) agent_specialties))),
                     (''workspace'', JStr (base_dir (workspace w))),
                     (''coordination_method'', JStr ''file_based_communication_hub'')])"
proof -
  have keys: "set (map fst (agents (fst (snd (initialize_swarm (self, w))))))
     = set (map fst (agents self)) \<union> set (generated_agent_ids w)"
    unfolding initialize_swarm_agents
    by (simp add: AList.dom_update generated_agent_ids_def insert_commute Un_commute)
  have len: "length (agents self) \<le> length (agents (fst (snd (initialize_swarm (self, w)))))"
    unfolding initialize_swarm_agents
    by (meson length_update_ge order_trans)
  have old: "\<forall>k. k \<notin> set (generated_agent_ids w) \<longrightarrow>
         map_of (agents (fst (snd (initialize_swarm (self, w))))) k = map_of (agents self) k"
    unfolding initialize_swarm_agents
    by (simp add: AList.update_conv' generated_agent_ids_def)
  have new: "\<forall>(aid, spec, descr) \<in> set (zip (generated_agent_ids w) agent_specialties).
         map_of (agents (fst (snd (initialize_swarm (self, w))))) aid
           = Some (SpecialistAgent_init aid spec)"
    unfolding initialize_swarm_agents
    by (simp add: AList.update_conv' generated_agent_ids_def agent_specialties_def agent_key_def)
  have ret: "fst (initialize_swarm (self, w))
       = Inr (JDict [(''status'', JStr ''swarm_initialized''),
                     (''agents'', JDict (map (\<lambda>(aid, spec, descr).
                         (aid, JDict [(''specialty'', JStr spec), (''description'', JStr descr),
                                      (''status'', JStr ''ready'')]))
                       (zip (generated_agent_ids w) agent_specialties))),
                     (''workspace'', JStr (base_dir (workspace w))),
                     (''coordination_method'', JStr ''file_based_communication_hub'')])"
    by (rule initialize_swarm_returned)
  from keys len old new ret show ?thesis by blast
qed

theorem initialize_swarm_accumulates_witness:
  "''analyst_agent_00000001'' \<notin> set (generated_agent_ids
        (snd (snd (initialize_swarm (SwarmOrchestrator_init 5, example_world)))))
   \<and> (''analyst_agent_00000006'', ''analyst'', ''Performs deep first-principles analysis'')
       \<in> set (zip (generated_agent_ids
                     (snd (snd (initialize_swarm (SwarmOrchestrator_init 5, example_world)))))
                  agent_specialties)
   \<and> map_of (agents (fst (snd (initialize_swarm
          (snd (initialize_swarm (SwarmOrchestrator_init 5, example_world)))))))
        ''analyst_agent_00000001''
       = Some (SpecialistAgent_init ''analyst_agent_00000001'' ''analyst'')
   \<and> map_of (agents (fst (snd (initialize_swarm
          (snd (initialize_swarm (SwarmOrchestrator_init 5, example_world)))))))
        ''analyst_agent_00000006''
       = Some (SpecialistAgent_init ''analyst_agent_00000006'' ''analyst'')"
proof -
  let ?s1 = "initialize_swarm (SwarmOrchestrator_init 5, example_world)"
  have old: "''analyst_agent_00000001'' \<notin> set (generated_agent_ids (snd (snd ?s1)))"
    by (simp add: example_second_ids)
  have new: "(''analyst_agent_00000006'', ''analyst'', ''Performs deep first-principles analysis'')
       \<in> set (zip (generated_agent_ids (snd (snd ?s1))) agent_specialties)"
    by (simp add: example_second_ids agent_specialties_def)
  have first: "map_of (agents (fst (snd ?s1))) ''analyst_agent_00000001''
       = Some (SpecialistAgent_init ''analyst_agent_00000001'' ''analyst'')"
    by (simp add: example_first_agents example_agents_def)
  note inst = initialize_swarm_accumulates [of "fst (snd ?s1)" "snd (snd ?s1)"]
  from inst old have "map_of (agents (fst (snd (initialize_swarm (snd ?s1)))))
        ''analyst_agent_00000001'' = map_of (agents (fst (snd ?s1))) ''analyst_agent_00000001''"
    by simp
  moreover from inst new have "map_of (agents (fst (snd (initialize_swarm (snd ?s1)))))
        ''analyst_agent_00000006''
          = Some (SpecialistAgent_init ''analyst_agent_00000006'' ''analyst'')"
    by fastforce
  ultimately show ?thesis using old new first by simp
qed

text \<open>
  The claim as it was stated fails: after two calls on a fresh orchestrator, with ten
  different random identifiers, the orchestrator holds ten agents, two per role.
\<close>

theorem initialize_swarm_twice_counterexample:
  "length (agents (fst (snd (initialize_swarm
      (snd (initialize_swarm (SwarmOrchestrator_init 5, example_world))))))) = 10
   \<and> map fst (agents (fst (snd (initialize_swarm
      (snd (initialize_swarm (SwarmOrchestrator_init 5, example_world)))))))
     = [''coordinator_agent_00000000'', ''analyst_agent_00000001'',
        ''validator_agent_00000002'', ''explorer_agent_00000003'',
        ''synthesizer_agent_00000004'', ''coordinator_agent_00000005'',
        ''analyst_agent_00000006'', ''validator_agent_00000007'',
        ''explorer_agent_00000008'', ''synthesizer_agent_00000009'']"
proof -
  let ?s1 = "initialize_swarm (SwarmOrchestrator_init 5, example_world)"
  have ids: "agent_key ''coordinator'' (snd (snd ?s1)) 0 = ''coordinator_agent_00000005''"
    "agent_key ''analyst'' (snd (snd ?s1)) 1 = ''analyst_agent_00000006''"
    "agent_key ''validator'' (snd (snd ?s1)) 2 = ''validator_agent_00000007''"
    "agent_key ''explorer'' (snd (snd ?s1)) 3 = ''explorer_agent_00000008''"
    "agent_key ''synthesizer'' (snd (snd ?s1)) 4 = ''synthesizer_agent_00000009''"
    using example_second_ids by (simp_all add: generated_agent_ids_def)
  have "agents (fst (snd (initialize_swarm (fst (snd ?s1), snd (snd ?s1)))))
     = example_agents @
       [(''coordinator_agent_00000005'',
           SpecialistAgent_init ''coordinator_agent_00000005'' ''coordinator''),
        (''analyst_agent_00000006'', SpecialistAgent_init ''analyst_agent_00000006'' ''analyst''),
        (''validator_agent_00000007'',
           SpecialistAgent_init ''validator_agent_00000007'' ''validator''),
        (''explorer_agent_00000008'',
           SpecialistAgent_init ''explorer_agent_00000008'' ''explorer''),
        (''synthesizer_agent_00000009'',
           SpecialistAgent_init ''synthesizer_agent_00000009'' ''synthesizer'')]"
    using initialize_swarm_agents[of "fst (snd ?s1)" "snd (snd ?s1)",
            unfolded ids example_first_agents]
    by (simp add: example_agents_def)
  then show ?thesis by (simp add: example_agents_def)
qed

text \<open>
  C4, as the code has it. The integration part of the Phase 2 result is the same record
  of four empty lists for every problem, every list of peer results, every agent and
  every world; it says nothing about the peer results.
\<close>

theorem ultrathink_integration_is_fixed:
  "jget (fst (ultrathink_collaborative problem peer_results (agent, w))) ''integration_insights''
     = Some (JDict [(''synthesized_insights'', JList []), (''conflicts_identified'', JList []),
                    (''emergent_patterns'', JList []), (''collaborative_conclusions'', JList [])])"
  by (simp add: ultrathink_collaborative_def collaborative_insights_def
        integrate_other_insights_def)

text \<open>
  The claim as it was stated fails: the integration part is the same for no peer result
  and for two peer results, and it holds no number.
\<close>

theorem ultrathink_integration_counterexample:
  "length ([] :: json list) \<noteq> length [thinking_process ''P1'', thinking_process ''P1'']
   \<and> jget (fst (ultrathink_collaborative ''P1'' [] (example_agent, example_world)))
          ''integration_insights''
     = jget (fst (ultrathink_collaborative ''P1''
                    [thinking_process ''P1'', thinking_process ''P1'']
                    (example_agent, example_world))) ''integration_insights''
   \<and> jget (fst (ultrathink_collaborative ''P1''
                    [thinking_process ''P1'', thinking_process ''P1'']
                    (example_agent, example_world))) ''integration_insights''
     = Some (JDict [(''synthesized_insights'', JList []), (''conflicts_identified'', JList []),
                    (''emergent_patterns'', JList []), (''collaborative_conclusions'', JList [])])"
  by (simp add: ultrathink_collaborative_def collaborative_insights_def
        integrate_other_insights_def)



section \<open>Facts about the launcher\<close>

lemma stop_exited: "\<not> poll_is_None h p \<Longrightarrow> stop p h = h"
  by (simp add: stop_def)




























section \<open>Process supervision\<close>







end
